theory Spec2Isabelle
  imports Main
begin

section \<open>JavaScript values\<close>

text \<open>
  The adapter of \<^verbatim>\<open>s3.server.js\<close> receives option bags whose values are arbitrary
  JavaScript values and tests them with \<^verbatim>\<open>typeof\<close> and with truthiness. Numbers are
  restricted to integers here; no claim depends on fractions or NaN.
\<close>

datatype jsval =
    JUndefined
  | JNull
  | JBool bool
  | JNum int
  | JStr string
  | JArr "jsval list"
  | JObj "(string \<times> jsval) list"

text \<open>What \<^verbatim>\<open>if (v)\<close>, \<^verbatim>\<open>v || w\<close> and \<^verbatim>\<open>!v\<close> test.\<close>

fun truthy :: "jsval \<Rightarrow> bool" where
  "truthy JUndefined = False"
| "truthy JNull = False"
| "truthy (JBool b) = b"
| "truthy (JNum n) = (n \<noteq> 0)"
| "truthy (JStr s) = (s \<noteq> [])"
| "truthy (JArr xs) = True"
| "truthy (JObj kvs) = True"

text \<open>
  A property that holds a string or is \<^verbatim>\<open>undefined\<close> is a \<^typ>\<open>string option\<close>.
  \<open>None\<close> and the empty string are the falsy ones.
\<close>

definition str_truthy :: "string option \<Rightarrow> bool" where
  "str_truthy v = (case v of None \<Rightarrow> False | Some s \<Rightarrow> s \<noteq> [])"

text \<open>\<^verbatim>\<open>a || b\<close> on such properties.\<close>

definition str_or :: "string option \<Rightarrow> string option \<Rightarrow> string option" where
  "str_or a b = (if str_truthy a then a else b)"

text \<open>The operand of a string concatenation: \<^verbatim>\<open>undefined\<close> is spelled out.\<close>

definition js_string :: "string option \<Rightarrow> string" where
  "js_string v = (case v of None \<Rightarrow> ''undefined'' | Some s \<Rightarrow> s)"

definition js_of :: "string option \<Rightarrow> jsval" where
  "js_of v = (case v of None \<Rightarrow> JUndefined | Some s \<Rightarrow> JStr s)"

text \<open>
  \<^verbatim>\<open>String.prototype.slice(start, end)\<close>: a negative index counts from the end, both
  indices are clamped to the string, and an absent \<^verbatim>\<open>end\<close> is the length.
\<close>

definition js_index :: "nat \<Rightarrow> int \<Rightarrow> nat" where
  "js_index len i = (if i < 0 then nat (max (int len + i) 0) else min (nat i) len)"

definition js_slice :: "string \<Rightarrow> int \<Rightarrow> int option \<Rightarrow> string" where
  "js_slice s start stop =
     (let len = length s;
          from = js_index len start;
          to = (case stop of None \<Rightarrow> len | Some e \<Rightarrow> js_index len e)
      in take (to - from) (drop from s))"

datatype js_error = Error string | TypeError


section \<open>The file record and the store\<close>

text \<open>
  The per-store info of a file (\<^verbatim>\<open>fileObj._getInfo(name)\<close>); only its \<^verbatim>\<open>key\<close> is read.
\<close>

record copy_info =
  key :: "string option"

text \<open>
  The file record is the framework's. The adapter reads \<^verbatim>\<open>collectionName\<close>, \<^verbatim>\<open>_id\<close>,
  \<^verbatim>\<open>_getInfo(store)\<close> (\<open>None\<close>: a falsy result) and \<^verbatim>\<open>name(options)\<close>, whose argument
  is \<open>None\<close> for the call \<^verbatim>\<open>name()\<close> and \<open>Some s\<close> for \<^verbatim>\<open>name({store: s})\<close>.
\<close>

record fs_file =
  collectionName :: string
  file_id :: string
  getInfo :: "string \<Rightarrow> copy_info option"
  file_name :: "string option \<Rightarrow> string option"

text \<open>The second argument of the \<^verbatim>\<open>options.fileKey\<close> function.\<close>

record key_context =
  name :: string
  info :: "copy_info option"

text \<open>The options of the constructor that the adapter itself reads.\<close>

record s3_options =
  opt_folder :: jsval
  opt_bucket :: "string option"
  opt_ACL :: "string option"
  opt_fileKey :: "(fs_file \<Rightarrow> key_context \<Rightarrow> jsval) option"

text \<open>What the closures of the adapter capture.\<close>

record s3_store =
  store_name :: string
  folder :: string
  bucket :: string
  defaultAcl :: string
  options_fileKey :: "(fs_file \<Rightarrow> key_context \<Rightarrow> jsval) option"

text \<open>Lines 74 to 84: the folder (key prefix) in the bucket.\<close>

definition folder_prefix :: "jsval \<Rightarrow> string" where
  "folder_prefix v =
     (case v of
        JStr s \<Rightarrow>
          if length s \<noteq> 0 then
            (let f1 = (if js_slice s 0 (Some 1) = ''/'' then js_slice s 1 None else s);
                 f2 = (if js_slice f1 (- 1) None \<noteq> ''/'' then f1 @ ''/'' else f1)
             in f2)
          else []
      | _ \<Rightarrow> [])"

text \<open>
  The constructor \<^verbatim>\<open>FS.Store.S3(name, options)\<close>. The first argument says whether it
  was called with \<^verbatim>\<open>new\<close>. Absent options are a record of absent fields.
\<close>

definition FS_Store_S3 :: "bool \<Rightarrow> string \<Rightarrow> s3_options \<Rightarrow> js_error + s3_store" where
  "FS_Store_S3 with_new nm options =
     (if \<not> with_new then Inl (Error (''FS.Store.S3 missing keyword '' @ [CHR 0x22] @ ''new'' @ [CHR 0x22]))
      else
        let fld = folder_prefix (opt_folder options) in
        if \<not> str_truthy (opt_bucket options)
        then Inl (Error (''FS.Store.S3 you must specify the '' @ [CHR 0x22] @ ''bucket'' @ [CHR 0x22] @ '' option''))
        else
          Inr \<lparr> store_name = nm,
                folder = fld,
                bucket = js_string (opt_bucket options),
                defaultAcl = js_string (str_or (opt_ACL options) (Some ''private'')),
                options_fileKey = opt_fileKey options \<rparr>)"


section \<open>The key of a file\<close>

definition fileKey :: "s3_store \<Rightarrow> fs_file option \<Rightarrow> js_error + jsval" where
  "fileKey st fileObj =
     (let info = (case fileObj of None \<Rightarrow> None | Some f \<Rightarrow> getInfo f (store_name st));
          info_key = (case info of None \<Rightarrow> None | Some i \<Rightarrow> key i)
      in
        if str_truthy info_key then Inr (js_of info_key)
        else
          case fileObj of
            None \<Rightarrow> Inl TypeError
          | Some f \<Rightarrow>
              (let filename = file_name f None;
                   filenameInStore = file_name f (Some (store_name st))
               in
                 case options_fileKey st of
                   Some g \<Rightarrow> Inr (g f \<lparr> name = store_name st, info = info \<rparr>)
                 | None \<Rightarrow>
                     Inr (JStr (collectionName f @ ''/'' @ file_id f @ ''-''
                                @ js_string (str_or filenameInStore filename))))) "


section \<open>The storage client\<close>

datatype aws_error = AwsError (code: string) (message: string)

text \<open>
  A stream of the client, as its listeners see it: \<^verbatim>\<open>data\<close> events with the chunks
  in order, then one closing event, \<^verbatim>\<open>end\<close> or \<^verbatim>\<open>error\<close>.
\<close>

datatype s3_stream =
    Ended "string list"
  | Failed "string list" aws_error

text \<open>
  The client is a parameter. \<open>getObject s3 b k n\<close> is the stream that the call number
  \<open>n\<close> (from 0) of \<^verbatim>\<open>S3.createReadStream({Bucket: b, Key: k})\<close> returns, and
  \<open>deleteObject s3 b k\<close> is the error that \<^verbatim>\<open>S3.deleteObject\<close> hands to its callback
  (\<open>None\<close>: null).
\<close>

record s3_client =
  getObject :: "string \<Rightarrow> string \<Rightarrow> nat \<Rightarrow> s3_stream"
  deleteObject :: "string \<Rightarrow> string \<Rightarrow> aws_error option"

text \<open>What the consumer of the returned stream \<^verbatim>\<open>out\<close> is handed, in order.\<close>

datatype out_event =
    Push string
  | PushNull
  | EmitError js_error

text \<open>Everything the adapter does, in order.\<close>

datatype action =
    S3_createReadStream string string
  | S3_deleteObject string string
  | SetTimeout int
  | ConsoleError string
  | Out out_event

fun consumer :: "action list \<Rightarrow> out_event list" where
  "consumer [] = []"
| "consumer (Out e # as) = e # consumer as"
| "consumer (a # as) = consumer as"

text \<open>
  Observations on a run: how many times the client was read, whether a stream of the
  client closed with \<^verbatim>\<open>error\<close>, and the chunks it delivered before closing.
\<close>

fun reads_made :: "action list \<Rightarrow> nat" where
  "reads_made [] = 0"
| "reads_made (S3_createReadStream b k # as) = Suc (reads_made as)"
| "reads_made (a # as) = reads_made as"

fun is_failed :: "s3_stream \<Rightarrow> bool" where
  "is_failed (Ended cs) = False"
| "is_failed (Failed cs e) = True"

fun delivered :: "s3_stream \<Rightarrow> string list" where
  "delivered (Ended cs) = cs"
| "delivered (Failed cs e) = cs"


section \<open>Reading with retries\<close>

record read_options =
  tries :: "int option"
  tryFreq :: "int option"

text \<open>
  \<^verbatim>\<open>startStream\<close> with the captured \<^verbatim>\<open>tryFreq\<close> and the current \<^verbatim>\<open>triesLeft\<close>; \<open>n\<close>
  counts the calls of the client made so far. The timer runs \<^verbatim>\<open>startStream\<close> again
  after \<^verbatim>\<open>triesLeft--\<close>.
\<close>

function startStream ::
  "s3_store \<Rightarrow> s3_client \<Rightarrow> string \<Rightarrow> int \<Rightarrow> int \<Rightarrow> nat \<Rightarrow> action list"
where
  "startStream st s3 fk freq triesLeft n =
     (let k = folder st @ fk in
      S3_createReadStream (bucket st) k #
        (case getObject s3 (bucket st) k n of
           Ended chunks \<Rightarrow> map (\<lambda>d. Out (Push d)) chunks @ [Out PushNull]
         | Failed chunks err \<Rightarrow>
             map (\<lambda>d. Out (Push d)) chunks @
               (if triesLeft \<le> 0 then
                  (let msg = ''Failed to download file '' @ k @ '' from S3 bucket '' @ bucket st
                   in [ConsoleError msg, Out (EmitError (Error msg)), Out PushNull])
                else
                  SetTimeout freq # startStream st s3 fk freq (triesLeft - 1) (Suc n))))"
  by pat_completeness auto
termination
  by (relation "measure (\<lambda>(st, s3, fk, freq, triesLeft, n). nat triesLeft)") auto

declare startStream.simps [simp del]

definition createReadStream ::
  "s3_store \<Rightarrow> s3_client \<Rightarrow> string \<Rightarrow> read_options \<Rightarrow> action list"
where
  "createReadStream st s3 fk options =
     (let freq = (case tryFreq options of None \<Rightarrow> 1000 | Some f \<Rightarrow> f);
          triesLeft = (case tries options of None \<Rightarrow> 3 | Some t \<Rightarrow> t)
      in startStream st s3 fk freq triesLeft 0)"


section \<open>Writing\<close>

text \<open>
  Modelled from the spec: \<^verbatim>\<open>FS.Utility.extend\<close> is the framework's and not part of this
  file. It copies every property of its second argument over the first, so the second
  argument's values win.
\<close>

definition extend :: "(string \<rightharpoonup> jsval) \<Rightarrow> (string \<rightharpoonup> jsval) \<Rightarrow> (string \<rightharpoonup> jsval)" where
  "extend dest src = dest ++ src"

text \<open>
  \<^verbatim>\<open>createWriteStream\<close> up to its last line: the result is the parameter object given to
  \<^verbatim>\<open>S3.createWriteStream\<close>, whose stream is returned as it is. Absent options are
  \<open>None\<close>.
\<close>

definition createWriteStream ::
  "s3_store \<Rightarrow> string \<Rightarrow> (string \<rightharpoonup> jsval) option \<Rightarrow> (string \<rightharpoonup> jsval)"
where
  "createWriteStream st fk options =
     (let o0 = (case options of None \<Rightarrow> Map.empty | Some m \<Rightarrow> m);
          o1 = (case o0 ''contentType'' of
                  Some v \<Rightarrow> if truthy v then o0(''ContentType'' \<mapsto> v) else o0
                | None \<Rightarrow> o0);
          o2 = o1(''aliases'' := None);
          o3 = o2(''contentType'' := None);
          o4 = o3(''metadata'' := None)
      in extend
           [''Bucket'' \<mapsto> JStr (bucket st),
            ''Key'' \<mapsto> JStr (folder st @ fk),
            ''fileKey'' \<mapsto> JStr fk,
            ''ACL'' \<mapsto> JStr (defaultAcl st)]
           o4)"


section \<open>Removing and watching\<close>

text \<open>
  \<^verbatim>\<open>remove\<close>: the calls of the client, and what the callback returns on the arguments
  it is given.
\<close>

definition remove ::
  "s3_store \<Rightarrow> s3_client \<Rightarrow> string \<Rightarrow> (aws_error option \<Rightarrow> bool \<Rightarrow> 'r) \<Rightarrow> action list \<times> 'r"
where
  "remove st s3 fk callback =
     (let k = folder st @ fk;
          error = deleteObject s3 (bucket st) k
      in ([S3_deleteObject (bucket st) k], callback error (error = None)))"

text \<open>\<^verbatim>\<open>watch\<close> throws whatever it is called with, before doing anything.\<close>

definition watch :: "s3_store \<Rightarrow> jsval list \<Rightarrow> action list \<times> (js_error + jsval)" where
  "watch st args = ([], Inl (Error ''S3 storage adapter does not support the sync option''))"



section \<open>Example values\<close>

definition example_store :: s3_store where
  "example_store =
     \<lparr> store_name = ''images'', folder = ''uploads/'', bucket = ''media'',
       defaultAcl = ''private'', options_fileKey = None \<rparr>"

text \<open>The same store with an \<^verbatim>\<open>options.fileKey\<close> function.\<close>

definition override_store :: s3_store where
  "override_store =
     example_store \<lparr> options_fileKey := Some (\<lambda>f ctx. JStr (name ctx @ ''/'' @ file_id f)) \<rparr>"

text \<open>A stored file: the store \<^verbatim>\<open>images\<close> has recorded its key and its own name.\<close>

definition stored_file :: fs_file where
  "stored_file =
     \<lparr> collectionName = ''photos'', file_id = ''x7'',
       getInfo = (\<lambda>s. if s = ''images'' then Some \<lparr> key = Some ''photos/x7-cat.png'' \<rparr> else None),
       file_name = (\<lambda>s. case s of None \<Rightarrow> Some ''cat.png''
                        | Some n \<Rightarrow> if n = ''images'' then Some ''thumb.png'' else None) \<rparr>"

text \<open>The same file before any store has recorded anything.\<close>

definition new_file :: fs_file where
  "new_file = stored_file \<lparr> getInfo := (\<lambda>s. None) \<rparr>"

text \<open>A file whose recorded key is the empty string.\<close>

definition empty_key_file :: fs_file where
  "empty_key_file = stored_file \<lparr> getInfo := (\<lambda>s. Some \<lparr> key = Some [] \<rparr>) \<rparr>"

text \<open>A new file whose name in every store is the empty string.\<close>

definition empty_name_file :: fs_file where
  "empty_name_file =
     new_file \<lparr> file_name := (\<lambda>s. case s of None \<Rightarrow> Some ''cat.png'' | Some n \<Rightarrow> Some []) \<rparr>"

text \<open>A client whose every read fails at once and that finds no object to delete.\<close>

definition failing_client :: s3_client where
  "failing_client =
     \<lparr> getObject = (\<lambda>b k n. Failed [] (AwsError ''NetworkingError'' ''socket hang up'')),
       deleteObject = (\<lambda>b k. Some (AwsError ''NoSuchKey'' ''The specified key does not exist.'')) \<rparr>"

text \<open>A client whose first two reads fail at once and whose later reads succeed.\<close>

definition flaky_client :: s3_client where
  "flaky_client =
     \<lparr> getObject = (\<lambda>b k n. if n < 2 then Failed [] (AwsError ''NetworkingError'' ''socket hang up'')
                              else Ended [''hello '', ''world'']),
       deleteObject = (\<lambda>b k. None) \<rparr>"


definition example_write_options :: "string \<rightharpoonup> jsval" where
  "example_write_options =
     [''contentType'' \<mapsto> JStr ''text/plain'',
      ''aliases'' \<mapsto> JArr [JStr ''a'', JStr ''b''],
      ''metadata'' \<mapsto> JObj [(''owner'', JStr ''me'')],
      ''ACL'' \<mapsto> JStr ''public-read'']"

section \<open>The key of a file: properties\<close>

text \<open>
  C4, as the code has it. A recorded key is returned as it is, whatever
  \<^verbatim>\<open>options.fileKey\<close> is, provided the key is not the empty string: the test
  \<^verbatim>\<open>info && info.key\<close> is a truthiness test. The result does not depend on the
  override function or on the names of the file, so resolving again gives the same key.
\<close>

theorem fileKey_recorded:
  assumes "getInfo f (store_name st) = Some i" and "key i = Some k" and "k \<noteq> []"
  shows "fileKey st (Some f) = Inr (JStr k)"
  using assms by (simp add: fileKey_def str_truthy_def js_of_def)

theorem fileKey_recorded_witness:
  "getInfo stored_file (store_name override_store) = Some \<lparr> key = Some ''photos/x7-cat.png'' \<rparr>
   \<and> key \<lparr> key = Some ''photos/x7-cat.png'' \<rparr> = Some ''photos/x7-cat.png''
   \<and> ''photos/x7-cat.png'' \<noteq> []
   \<and> fileKey override_store (Some stored_file) = Inr (JStr ''photos/x7-cat.png'')"
  using fileKey_recorded [of stored_file override_store
      "\<lparr> key = Some ''photos/x7-cat.png'' \<rparr>" "''photos/x7-cat.png''"]
  by (simp add: stored_file_def override_store_def example_store_def)

text \<open>
  C4 as stated fails where the recorded key is the empty string: the resolver goes on
  and builds a key from the names.
\<close>

theorem fileKey_recorded_empty_counterexample:
  "getInfo empty_key_file (store_name example_store) = Some \<lparr> key = Some [] \<rparr>
   \<and> fileKey example_store (Some empty_key_file) = Inr (JStr ''photos/x7-thumb.png'')
   \<and> fileKey example_store (Some empty_key_file) \<noteq> Inr (JStr [])"
  by (simp add: fileKey_def str_truthy_def js_of_def str_or_def js_string_def
      empty_key_file_def stored_file_def example_store_def)

text \<open>
  C5, as the code has it. With no recorded key (none, or an empty one) and no
  \<^verbatim>\<open>options.fileKey\<close>, the key is collection name, \<^verbatim>\<open>/\<close>, id, \<^verbatim>\<open>-\<close> and a file name:
  the name in the store when that is a string that is not empty, else the generic name
  (read as \<^verbatim>\<open>undefined\<close> when the record has none).
\<close>

theorem fileKey_generated:
  assumes "\<not> str_truthy (case getInfo f (store_name st) of None \<Rightarrow> None | Some i \<Rightarrow> key i)"
    and "options_fileKey st = None"
  shows "fileKey st (Some f) =
     Inr (JStr (collectionName f @ ''/'' @ file_id f @ ''-'' @
       (case file_name f (Some (store_name st)) of
          Some s \<Rightarrow> if s \<noteq> [] then s else js_string (file_name f None)
        | None \<Rightarrow> js_string (file_name f None))))"
  using assms
  by (simp add: fileKey_def str_or_def str_truthy_def js_string_def Let_def split: option.splits)

theorem fileKey_generated_witness:
  "\<not> str_truthy (case getInfo new_file (store_name example_store) of None \<Rightarrow> None | Some i \<Rightarrow> key i)
   \<and> options_fileKey example_store = None
   \<and> fileKey example_store (Some new_file) = Inr (JStr ''photos/x7-thumb.png'')
   \<and> fileKey (example_store \<lparr> store_name := ''other'' \<rparr>) (Some new_file) = Inr (JStr ''photos/x7-cat.png'')"
  using fileKey_generated [of new_file example_store]
    fileKey_generated [of new_file "example_store \<lparr> store_name := ''other'' \<rparr>"]
  by (simp add: new_file_def stored_file_def example_store_def str_truthy_def js_string_def)

text \<open>
  C5 as stated fails where the name in the store exists and is the empty string: the
  generic name is used, since \<^verbatim>\<open>filenameInStore || filename\<close> tests truthiness.
\<close>

theorem fileKey_generated_empty_name_counterexample:
  "file_name empty_name_file (Some (store_name example_store)) = Some []
   \<and> file_name empty_name_file None = Some ''cat.png''
   \<and> fileKey example_store (Some empty_name_file) = Inr (JStr ''photos/x7-cat.png'')
   \<and> fileKey example_store (Some empty_name_file)
       \<noteq> Inr (JStr (collectionName empty_name_file @ ''/'' @ file_id empty_name_file @ ''-'' @ []))"
  by (simp add: fileKey_def str_truthy_def js_of_def str_or_def js_string_def
      empty_name_file_def new_file_def stored_file_def example_store_def)

text \<open>
  C6. With no recorded key and an \<^verbatim>\<open>options.fileKey\<close> function, the resolver calls the
  function on the file record and on the context \<^verbatim>\<open>{name: name, info: info}\<close>, and its
  result is returned as it is, whatever value it is.
\<close>

theorem fileKey_override:
  assumes "\<not> str_truthy (case getInfo f (store_name st) of None \<Rightarrow> None | Some i \<Rightarrow> key i)"
    and "options_fileKey st = Some g"
  shows "fileKey st (Some f) = Inr (g f \<lparr> name = store_name st, info = getInfo f (store_name st) \<rparr>)"
  using assms by (simp add: fileKey_def Let_def)

theorem fileKey_override_witness:
  "\<not> str_truthy (case getInfo new_file (store_name override_store) of None \<Rightarrow> None | Some i \<Rightarrow> key i)
   \<and> options_fileKey override_store = Some (\<lambda>f ctx. JStr (name ctx @ ''/'' @ file_id f))
   \<and> fileKey override_store (Some new_file) = Inr (JStr ''images/x7'')"
  using fileKey_override [of new_file override_store "\<lambda>f ctx. JStr (name ctx @ ''/'' @ file_id f)"]
  by (simp add: new_file_def stored_file_def override_store_def example_store_def str_truthy_def)

text \<open>Without a file record the resolver throws: \<^verbatim>\<open>fileObj.name\<close> is read from nothing.\<close>

lemma fileKey_no_file: "fileKey st None = Inl TypeError"
  by (simp add: fileKey_def str_truthy_def)


section \<open>Reading with retries: properties\<close>

lemma consumer_append: "consumer (xs @ ys) = consumer xs @ consumer ys"
  by (induction xs rule: consumer.induct) simp_all

lemma consumer_pushes: "consumer (map (\<lambda>d. Out (Push d)) cs) = map Push cs"
  by (induction cs) simp_all

text \<open>The three ways one run of \<^verbatim>\<open>startStream\<close> goes.\<close>

lemma startStream_Ended:
  "getObject s3 (bucket st) (folder st @ fk) n = Ended cs \<Longrightarrow>
   startStream st s3 fk freq t n =
     S3_createReadStream (bucket st) (folder st @ fk) #
       map (\<lambda>d. Out (Push d)) cs @ [Out PushNull]"
  by (subst startStream.simps) simp

lemma startStream_Failed_last:
  "getObject s3 (bucket st) (folder st @ fk) n = Failed cs e \<Longrightarrow> t \<le> 0 \<Longrightarrow>
   startStream st s3 fk freq t n =
     S3_createReadStream (bucket st) (folder st @ fk) # map (\<lambda>d. Out (Push d)) cs @
       [ConsoleError (''Failed to download file '' @ folder st @ fk @ '' from S3 bucket '' @ bucket st),
        Out (EmitError (Error
          (''Failed to download file '' @ folder st @ fk @ '' from S3 bucket '' @ bucket st))),
        Out PushNull]"
  by (subst startStream.simps) (simp add: Let_def)

lemma startStream_Failed_retry:
  "getObject s3 (bucket st) (folder st @ fk) n = Failed cs e \<Longrightarrow> 0 < t \<Longrightarrow>
   startStream st s3 fk freq t n =
     S3_createReadStream (bucket st) (folder st @ fk) # map (\<lambda>d. Out (Push d)) cs @
       SetTimeout freq # startStream st s3 fk freq (t - 1) (Suc n)"
  by (subst startStream.simps) (simp add: Let_def)

text \<open>
  Against a client whose every read fails at once, \<^verbatim>\<open>triesLeft = N\<close> gives \<open>N\<close> reads
  each followed by a timer, then one more read, and only then the error: \<open>N + 1\<close> reads
  in all.
\<close>

lemma startStream_all_failing:
  assumes "\<And>m. \<exists>e. getObject s3 (bucket st) (folder st @ fk) m = Failed [] e"
  shows "startStream st s3 fk freq (int N) n =
     concat (replicate N [S3_createReadStream (bucket st) (folder st @ fk), SetTimeout freq]) @
       [S3_createReadStream (bucket st) (folder st @ fk),
        ConsoleError (''Failed to download file '' @ folder st @ fk @ '' from S3 bucket '' @ bucket st),
        Out (EmitError (Error
          (''Failed to download file '' @ folder st @ fk @ '' from S3 bucket '' @ bucket st))),
        Out PushNull]"
proof (induction N arbitrary: n)
  case 0
  from assms obtain e where "getObject s3 (bucket st) (folder st @ fk) n = Failed [] e"
    by blast
  then show ?case by (simp add: startStream_Failed_last)
next
  case (Suc N)
  from assms obtain e where "getObject s3 (bucket st) (folder st @ fk) n = Failed [] e"
    by blast
  then have "startStream st s3 fk freq (int (Suc N)) n =
      S3_createReadStream (bucket st) (folder st @ fk) # map (\<lambda>d. Out (Push d)) [] @
        SetTimeout freq # startStream st s3 fk freq (int (Suc N) - 1) (Suc n)"
    by (rule startStream_Failed_retry) simp
  then show ?case using Suc.IH [of "Suc n"] by simp
qed

lemma createReadStream_all_failing_reads:
  assumes "\<And>m. \<exists>e. getObject s3 (bucket st) (folder st @ fk) m = Failed [] e"
  shows "length (filter (\<lambda>a. a = S3_createReadStream (bucket st) (folder st @ fk))
           (createReadStream st s3 fk \<lparr> tries = Some (int N), tryFreq = tf \<rparr>)) = N + 1"
    and "consumer (createReadStream st s3 fk \<lparr> tries = Some (int N), tryFreq = tf \<rparr>) =
           [EmitError (Error
              (''Failed to download file '' @ folder st @ fk @ '' from S3 bucket '' @ bucket st)),
            PushNull]"
proof -
  have run: "createReadStream st s3 fk \<lparr> tries = Some (int N), tryFreq = tf \<rparr> =
      concat (replicate N [S3_createReadStream (bucket st) (folder st @ fk),
                           SetTimeout (case tf of None \<Rightarrow> 1000 | Some f \<Rightarrow> f)]) @
        [S3_createReadStream (bucket st) (folder st @ fk),
         ConsoleError (''Failed to download file '' @ folder st @ fk @ '' from S3 bucket '' @ bucket st),
         Out (EmitError (Error
           (''Failed to download file '' @ folder st @ fk @ '' from S3 bucket '' @ bucket st))),
         Out PushNull]"
    by (simp add: createReadStream_def startStream_all_failing [OF assms])
  show "length (filter (\<lambda>a. a = S3_createReadStream (bucket st) (folder st @ fk))
           (createReadStream st s3 fk \<lparr> tries = Some (int N), tryFreq = tf \<rparr>)) = N + 1"
    unfolding run by (induction N) simp_all
  show "consumer (createReadStream st s3 fk \<lparr> tries = Some (int N), tryFreq = tf \<rparr>) =
           [EmitError (Error
              (''Failed to download file '' @ folder st @ fk @ '' from S3 bucket '' @ bucket st)),
            PushNull]"
    unfolding run by (induction N) (simp_all add: consumer_append)
qed

text \<open>
  C1 at \<^verbatim>\<open>tries: 1\<close>. The client is read twice, with one timer between, before the one
  error reaches the consumer; no data is pushed. The claim has the error after one
  failed read.
\<close>

theorem createReadStream_tries_1_reads_twice:
  "createReadStream example_store failing_client ''photos/x7-cat.png''
       \<lparr> tries = Some 1, tryFreq = None \<rparr> =
     [S3_createReadStream ''media'' ''uploads/photos/x7-cat.png'',
      SetTimeout 1000,
      S3_createReadStream ''media'' ''uploads/photos/x7-cat.png'',
      ConsoleError ''Failed to download file uploads/photos/x7-cat.png from S3 bucket media'',
      Out (EmitError (Error ''Failed to download file uploads/photos/x7-cat.png from S3 bucket media'')),
      Out PushNull]"
  by (simp add: createReadStream_def startStream.simps Let_def example_store_def failing_client_def)

text \<open>
  C2. When the first two reads fail at once and the third ends after its chunks, and
  \<^verbatim>\<open>tries\<close> is 3 (given, or by default), the consumer is handed exactly the chunks of
  the third read and then the end of the stream: no error.
\<close>

theorem createReadStream_third_read_succeeds:
  assumes "tries options = None \<or> tries options = Some 3"
    and "getObject s3 (bucket st) (folder st @ fk) 0 = Failed [] e0"
    and "getObject s3 (bucket st) (folder st @ fk) (Suc 0) = Failed [] e1"
    and "getObject s3 (bucket st) (folder st @ fk) (Suc (Suc 0)) = Ended payload"
  shows "consumer (createReadStream st s3 fk options) = map Push payload @ [PushNull]"
proof -
  obtain freq where run: "createReadStream st s3 fk options = startStream st s3 fk freq 3 0"
    using assms(1) by (auto simp: createReadStream_def)
  have "startStream st s3 fk freq 3 0 =
      S3_createReadStream (bucket st) (folder st @ fk) # SetTimeout freq #
      S3_createReadStream (bucket st) (folder st @ fk) # SetTimeout freq #
      S3_createReadStream (bucket st) (folder st @ fk) #
        map (\<lambda>d. Out (Push d)) payload @ [Out PushNull]"
    using startStream_Failed_retry [OF assms(2), of 3 freq]
      startStream_Failed_retry [OF assms(3), of 2 freq]
      startStream_Ended [OF assms(4), of freq 1]
    by simp
  then show ?thesis by (simp add: run consumer_append consumer_pushes)
qed

theorem createReadStream_third_read_succeeds_witness:
  "(tries \<lparr> tries = None, tryFreq = None \<rparr> = None \<or> tries \<lparr> tries = None, tryFreq = None \<rparr> = Some 3)
   \<and> getObject flaky_client (bucket example_store) (folder example_store @ ''a.txt'') 0
       = Failed [] (AwsError ''NetworkingError'' ''socket hang up'')
   \<and> getObject flaky_client (bucket example_store) (folder example_store @ ''a.txt'') (Suc 0)
       = Failed [] (AwsError ''NetworkingError'' ''socket hang up'')
   \<and> getObject flaky_client (bucket example_store) (folder example_store @ ''a.txt'') (Suc (Suc 0))
       = Ended [''hello '', ''world'']
   \<and> consumer (createReadStream example_store flaky_client ''a.txt'' \<lparr> tries = None, tryFreq = None \<rparr>)
       = [Push ''hello '', Push ''world'', PushNull]"
  using createReadStream_third_read_succeeds
    [of "\<lparr> tries = None, tryFreq = None \<rparr>" flaky_client example_store "''a.txt''"
        "AwsError ''NetworkingError'' ''socket hang up''"
        "AwsError ''NetworkingError'' ''socket hang up''" "[''hello '', ''world'']"]
  by (simp add: flaky_client_def)

lemma reads_made_append: "reads_made (xs @ ys) = reads_made xs + reads_made ys"
  by (induction xs rule: reads_made.induct) simp_all

lemma reads_made_pushes: "reads_made (map (\<lambda>d. Out (Push d)) cs) = 0"
  by (induction cs) simp_all

text \<open>
  One run of \<^verbatim>\<open>startStream\<close> from read \<open>n\<close> on, together with the runs its timers
  start. At least one read is made; every read but the last one made has failed; the
  consumer is handed the chunks of those failed reads in order, and then what the last
  read made decides: its chunks and the end of the stream when it ended, its chunks,
  the error and the end of the stream when it failed.
\<close>

lemma startStream_exact:
  "0 < reads_made (startStream st s3 fk freq t n)
   \<and> (\<forall>j. j < reads_made (startStream st s3 fk freq t n) - 1 \<longrightarrow>
         is_failed (getObject s3 (bucket st) (folder st @ fk) (n + j)))
   \<and> consumer (startStream st s3 fk freq t n) =
       map Push (concat (map (\<lambda>j. delivered (getObject s3 (bucket st) (folder st @ fk) j))
                          [n ..< n + reads_made (startStream st s3 fk freq t n) - 1])) @
       (case getObject s3 (bucket st) (folder st @ fk)
               (n + reads_made (startStream st s3 fk freq t n) - 1) of
          Ended cs \<Rightarrow> map Push cs @ [PushNull]
        | Failed cs e \<Rightarrow>
            map Push cs @
              [EmitError (Error (''Failed to download file '' @ folder st @ fk @
                                 '' from S3 bucket '' @ bucket st)),
               PushNull])"
proof (induction st s3 fk freq t n rule: startStream.induct)
  case (1 st s3 fk freq t n)
  let ?rd = "getObject s3 (bucket st) (folder st @ fk)"
  let ?now = "startStream st s3 fk freq t n"
  let ?later = "startStream st s3 fk freq (t - 1) (Suc n)"
  show ?case
  proof (cases "?rd n")
    case (Ended cs)
    then have run: "?now = S3_createReadStream (bucket st) (folder st @ fk) #
        map (\<lambda>d. Out (Push d)) cs @ [Out PushNull]"
      by (rule startStream_Ended)
    have one: "reads_made ?now = 1"
      unfolding run by (simp add: reads_made_append reads_made_pushes)
    have out: "consumer ?now = map Push cs @ [PushNull]"
      unfolding run by (simp add: consumer_append consumer_pushes)
    show ?thesis unfolding one out using Ended by simp
  next
    case (Failed cs e)
    show ?thesis
    proof (cases "t \<le> 0")
      case True
      have run: "?now = S3_createReadStream (bucket st) (folder st @ fk) #
          map (\<lambda>d. Out (Push d)) cs @
          [ConsoleError (''Failed to download file '' @ folder st @ fk @ '' from S3 bucket '' @ bucket st),
           Out (EmitError (Error
             (''Failed to download file '' @ folder st @ fk @ '' from S3 bucket '' @ bucket st))),
           Out PushNull]"
        using Failed True by (rule startStream_Failed_last)
      have one: "reads_made ?now = 1"
        unfolding run by (simp add: reads_made_append reads_made_pushes)
      have out: "consumer ?now = map Push cs @
          [EmitError (Error (''Failed to download file '' @ folder st @ fk @
                             '' from S3 bucket '' @ bucket st)),
           PushNull]"
        unfolding run by (simp add: consumer_append consumer_pushes)
      show ?thesis unfolding one out using Failed by simp
    next
      case False
      then have pos: "0 < t" by simp
      have run: "?now = S3_createReadStream (bucket st) (folder st @ fk) #
          map (\<lambda>d. Out (Push d)) cs @ SetTimeout freq # ?later"
        using Failed pos by (rule startStream_Failed_retry)
      obtain r where r: "reads_made ?later = Suc r"
        using "1.IH" [OF refl Failed False] by (cases "reads_made ?later") auto
      have count: "reads_made ?now = Suc (Suc r)"
        unfolding run by (simp add: reads_made_append reads_made_pushes r)
      have out: "consumer ?now = map Push cs @ consumer ?later"
        unfolding run by (simp add: consumer_append consumer_pushes)
      from "1.IH" [OF refl Failed False]
      have failed_later: "\<forall>j. j < r \<longrightarrow> is_failed (?rd (Suc n + j))"
        and out_later: "consumer ?later =
          map Push (concat (map (\<lambda>j. delivered (?rd j)) [Suc n ..< Suc n + r])) @
          (case ?rd (Suc n + r) of
             Ended cs \<Rightarrow> map Push cs @ [PushNull]
           | Failed cs e \<Rightarrow>
               map Push cs @
                 [EmitError (Error (''Failed to download file '' @ folder st @ fk @
                                    '' from S3 bucket '' @ bucket st)),
                  PushNull])"
        by (simp_all add: r)
      have failed_now: "\<forall>j. j < Suc r \<longrightarrow> is_failed (?rd (n + j))"
      proof (intro allI impI)
        fix j assume "j < Suc r"
        show "is_failed (?rd (n + j))"
        proof (cases j)
          case 0
          with Failed show ?thesis by simp
        next
          case (Suc i)
          with \<open>j < Suc r\<close> failed_later show ?thesis by simp
        qed
      qed
      have range: "[n ..< n + Suc r] = n # [Suc n ..< Suc n + r]"
        by (simp add: upt_conv_Cons)
      have "consumer ?now =
          map Push (concat (map (\<lambda>j. delivered (?rd j)) [n ..< n + Suc r])) @
          (case ?rd (n + Suc r) of
             Ended cs \<Rightarrow> map Push cs @ [PushNull]
           | Failed cs e \<Rightarrow>
               map Push cs @
                 [EmitError (Error (''Failed to download file '' @ folder st @ fk @
                                    '' from S3 bucket '' @ bucket st)),
                  PushNull])"
        unfolding out out_later range using Failed by simp
      with failed_now show ?thesis unfolding count by simp
    qed
  qed
qed

text \<open>
  How many reads one run makes: at most \<^verbatim>\<open>triesLeft\<close> (when positive) and one more, and
  exactly that many when the last read made has failed.
\<close>

lemma startStream_reads_made:
  "reads_made (startStream st s3 fk freq t n) \<le> nat t + 1
   \<and> (is_failed (getObject s3 (bucket st) (folder st @ fk)
                   (n + reads_made (startStream st s3 fk freq t n) - 1)) \<longrightarrow>
        reads_made (startStream st s3 fk freq t n) = nat t + 1)"
proof (induction st s3 fk freq t n rule: startStream.induct)
  case (1 st s3 fk freq t n)
  let ?rd = "getObject s3 (bucket st) (folder st @ fk)"
  let ?later = "startStream st s3 fk freq (t - 1) (Suc n)"
  show ?case
  proof (cases "?rd n")
    case (Ended cs)
    then show ?thesis
      by (simp add: startStream_Ended reads_made_append reads_made_pushes)
  next
    case (Failed cs e)
    show ?thesis
    proof (cases "t \<le> 0")
      case True
      with Failed show ?thesis
        by (simp add: startStream_Failed_last reads_made_append reads_made_pushes)
    next
      case False
      then have pos: "0 < t" by simp
      have count: "reads_made (startStream st s3 fk freq t n) = Suc (reads_made ?later)"
        by (simp add: startStream_Failed_retry [OF Failed pos] reads_made_append reads_made_pushes)
      have some: "0 < reads_made ?later"
        using startStream_exact [of st s3 fk freq "t - 1" "Suc n"] by simp
      have step: "nat t = Suc (nat (t - 1))" using pos by simp
      from "1.IH" [OF refl Failed False] some show ?thesis
        unfolding count step by simp
    qed
  qed
qed





section \<open>Writing: properties\<close>

text \<open>
  C7, as the code has it. The parameters given to the client hold a truthy
  \<^verbatim>\<open>contentType\<close> of the caller as \<^verbatim>\<open>ContentType\<close>; they have no \<^verbatim>\<open>aliases\<close>,
  \<^verbatim>\<open>metadata\<close> or \<^verbatim>\<open>contentType\<close>; \<^verbatim>\<open>Bucket\<close>, \<^verbatim>\<open>Key\<close> and \<^verbatim>\<open>ACL\<close> are the caller's where
  the caller gave them and else the bucket, folder and key, and default ACL of the
  store; and every other option of the caller is passed on as it is.
\<close>

theorem createWriteStream_params:
  "(\<forall>v. opts ''contentType'' = Some v \<and> truthy v \<longrightarrow>
        createWriteStream st fk (Some opts) ''ContentType'' = Some v)
   \<and> createWriteStream st fk (Some opts) ''aliases'' = None
   \<and> createWriteStream st fk (Some opts) ''metadata'' = None
   \<and> createWriteStream st fk (Some opts) ''contentType'' = None
   \<and> createWriteStream st fk (Some opts) ''Bucket'' =
        Some (case opts ''Bucket'' of Some v \<Rightarrow> v | None \<Rightarrow> JStr (bucket st))
   \<and> createWriteStream st fk (Some opts) ''Key'' =
        Some (case opts ''Key'' of Some v \<Rightarrow> v | None \<Rightarrow> JStr (folder st @ fk))
   \<and> createWriteStream st fk (Some opts) ''ACL'' =
        Some (case opts ''ACL'' of Some v \<Rightarrow> v | None \<Rightarrow> JStr (defaultAcl st))
   \<and> (\<forall>p v. opts p = Some v \<and> p \<notin> {''aliases'', ''contentType'', ''metadata'', ''ContentType''} \<longrightarrow>
        createWriteStream st fk (Some opts) p = Some v)"
  by (auto simp add: createWriteStream_def extend_def Let_def map_add_def split: option.splits)

theorem createWriteStream_params_witness:
  "example_write_options ''contentType'' = Some (JStr ''text/plain'')
   \<and> truthy (JStr ''text/plain'')
   \<and> createWriteStream example_store ''a.txt'' (Some example_write_options) ''ContentType''
       = Some (JStr ''text/plain'')
   \<and> createWriteStream example_store ''a.txt'' (Some example_write_options) ''aliases'' = None
   \<and> createWriteStream example_store ''a.txt'' (Some example_write_options) ''metadata'' = None
   \<and> createWriteStream example_store ''a.txt'' (Some example_write_options) ''Bucket''
       = Some (JStr ''media'')
   \<and> createWriteStream example_store ''a.txt'' (Some example_write_options) ''Key''
       = Some (JStr ''uploads/a.txt'')
   \<and> example_write_options ''ACL'' = Some (JStr ''public-read'')
   \<and> createWriteStream example_store ''a.txt'' (Some example_write_options) ''ACL''
       = Some (JStr ''public-read'')"
  using createWriteStream_params [of example_write_options example_store "''a.txt''"]
  by (simp add: example_write_options_def example_store_def)

text \<open>
  C7 as stated fails for a \<^verbatim>\<open>contentType\<close> that is given and falsy, here the empty
  string: \<^verbatim>\<open>if (options.contentType)\<close> skips it, and it is deleted like any other.
\<close>

theorem createWriteStream_empty_contentType_counterexample:
  "[''contentType'' \<mapsto> JStr []] ''contentType'' = Some (JStr [])
   \<and> createWriteStream example_store ''a.txt'' (Some [''contentType'' \<mapsto> JStr []]) ''ContentType''
       = None"
  by (simp add: createWriteStream_def extend_def Let_def map_add_def)

text \<open>Without options the parameters are the four defaults.\<close>

lemma createWriteStream_no_options:
  "createWriteStream st fk None =
     [''Bucket'' \<mapsto> JStr (bucket st), ''Key'' \<mapsto> JStr (folder st @ fk),
      ''fileKey'' \<mapsto> JStr fk, ''ACL'' \<mapsto> JStr (defaultAcl st)]"
  by (simp add: createWriteStream_def extend_def Let_def)


section \<open>Removing and watching: properties\<close>

text \<open>
  C8. \<^verbatim>\<open>remove\<close> calls the client once, to delete the folder followed by the key in
  the bucket, and never again. The callback gets the client's error as it is and, as
  success, whether there was none; so an error of the client, a missing key among them,
  arrives unchanged with success false.
\<close>

theorem remove_once:
  "remove st s3 fk callback =
     ([S3_deleteObject (bucket st) (folder st @ fk)],
      callback (deleteObject s3 (bucket st) (folder st @ fk))
               (deleteObject s3 (bucket st) (folder st @ fk) = None))
   \<and> (\<forall>e. deleteObject s3 (bucket st) (folder st @ fk) = Some e \<longrightarrow>
         snd (remove st s3 fk callback) = callback (Some e) False)"
  by (simp add: remove_def Let_def)

theorem remove_once_witness:
  "deleteObject failing_client (bucket example_store) (folder example_store @ ''a.txt'')
       = Some (AwsError ''NoSuchKey'' ''The specified key does not exist.'')
   \<and> remove example_store failing_client ''a.txt'' Pair =
       ([S3_deleteObject ''media'' ''uploads/a.txt''],
        (Some (AwsError ''NoSuchKey'' ''The specified key does not exist.''), False))"
  using remove_once [of example_store failing_client "''a.txt''" Pair]
  by (simp add: failing_client_def example_store_def)

text \<open>
  C9. \<^verbatim>\<open>watch\<close> throws its error for every store and every argument list, and does
  nothing before.
\<close>

theorem watch_unsupported:
  "watch st args = ([], Inl (Error ''S3 storage adapter does not support the sync option''))"
  by (simp add: watch_def)


section \<open>The folder: properties\<close>

lemma js_slice_first: "js_slice s 0 (Some 1) = take 1 s"
  by (cases s) (simp_all add: js_slice_def js_index_def Let_def)

lemma js_slice_rest: "js_slice s 1 None = drop 1 s"
  by (simp add: js_slice_def js_index_def Let_def min_def)

lemma js_slice_last: "js_slice s (- 1) None = drop (length s - 1) s"
  by (simp add: js_slice_def js_index_def Let_def nat_diff_distrib' max_def)

lemma drop_last_single: "drop (length xs - 1) xs = [c] \<longleftrightarrow> xs \<noteq> [] \<and> last xs = c"
  by (cases xs rule: rev_cases) simp_all

lemma folder_prefix_string:
  "folder_prefix (JStr s) =
     (if s = [] then []
      else let f1 = (if take 1 s = ''/'' then drop 1 s else s)
           in if f1 \<noteq> [] \<and> last f1 = CHR ''/'' then f1 else f1 @ ''/'')"
  by (simp add: folder_prefix_def js_slice_first js_slice_rest js_slice_last Let_def
      drop_last_single del: One_nat_def)

text \<open>No folder, an empty one, or one that is not a string: no prefix.\<close>

lemma folder_prefix_absent:
  "v \<notin> range JStr \<or> v = JStr [] \<Longrightarrow> folder_prefix v = []"
  by (cases v) (auto simp: folder_prefix_def)

text \<open>A folder that is a string and not empty: the prefix ends with a slash.\<close>

lemma folder_prefix_trailing:
  "s \<noteq> [] \<Longrightarrow> folder_prefix (JStr s) \<noteq> [] \<and> last (folder_prefix (JStr s)) = CHR ''/''"
  by (simp add: folder_prefix_string Let_def)

text \<open>
  One leading slash is removed. The prefix still begins with a slash for the folder
  \<^verbatim>\<open>/\<close> and for a folder that begins with two.
\<close>

lemma folder_prefix_leading:
  "take 1 (folder_prefix (JStr s)) = ''/'' \<longleftrightarrow> s = ''/'' \<or> take 2 s = ''//''"
proof (cases s)
  case Nil
  then show ?thesis by (simp add: folder_prefix_string)
next
  case (Cons c r)
  show ?thesis
  proof (cases r)
    case Nil
    with Cons show ?thesis by (auto simp: folder_prefix_string Let_def)
  next
    case (Cons d r')
    with \<open>s = c # r\<close> show ?thesis
      by (auto simp: folder_prefix_string Let_def numeral_2_eq_2)
  qed
qed

text \<open>
  C10 at the folder \<^verbatim>\<open>/\<close>, the value the documentation of the constructor gives as the
  default. The store's prefix is \<^verbatim>\<open>/\<close>, which begins with a slash, and reading, writing
  and removing put it in front of the key. The claim has a prefix that never begins
  with a slash.
\<close>

theorem folder_slash_prefix:
  "FS_Store_S3 True ''images''
       \<lparr> opt_folder = JStr ''/'', opt_bucket = Some ''media'', opt_ACL = None, opt_fileKey = None \<rparr>
     = Inr (example_store \<lparr> folder := ''/'' \<rparr>)
   \<and> folder (example_store \<lparr> folder := ''/'' \<rparr>) = ''/''
   \<and> hd (createReadStream (example_store \<lparr> folder := ''/'' \<rparr>) flaky_client ''a.txt''
           \<lparr> tries = None, tryFreq = None \<rparr>)
       = S3_createReadStream ''media'' ''/a.txt''
   \<and> createWriteStream (example_store \<lparr> folder := ''/'' \<rparr>) ''a.txt'' None ''Key''
       = Some (JStr ''/a.txt'')
   \<and> fst (remove (example_store \<lparr> folder := ''/'' \<rparr>) flaky_client ''a.txt'' Pair)
       = [S3_deleteObject ''media'' ''/a.txt'']"
  by (simp add: FS_Store_S3_def folder_prefix_def js_slice_def js_index_def Let_def
      str_truthy_def str_or_def js_string_def example_store_def
      createReadStream_def startStream.simps flaky_client_def
      createWriteStream_def extend_def remove_def)

end
